theory Spec2Isabelle
  imports Complex_Main "HOL-Library.Sublist" "HOL-Library.Char_ord" "HOL-Library.List_Lexorder"
begin

section \<open>Strings\<close>

text \<open>
  Python strings are modelled as \<^typ>\<open>string\<close> (lists of 8-bit characters, the UTF-8
  bytes of the text). The operator \<open>a in b\<close> on two strings is contiguous containment,
  \<^const>\<open>sublist\<close>. Strings are compared lexicographically by character code, which is
  the order of \<^typ>\<open>char list\<close>.

  \<open>str.lower\<close> is a builtin of Python that follows the Unicode case tables; its code is not
  part of the repository. Every function below that calls it takes it as its first argument,
  \<open>lower\<close>, an arbitrary function from strings to strings, and every theorem holds for every
  such function, Python's among them.

  \<open>ascii_lower\<close> is the instance used to evaluate the functions on examples: it moves the
  letters \<open>A..Z\<close> to \<open>a..z\<close> and keeps every other byte. On text made of ASCII characters
  only, as in every example below and in the built-in tables, it is \<open>str.lower\<close>.
\<close>

definition lower_char :: "char \<Rightarrow> char" where
  "lower_char c =
     (if CHR ''A'' \<le> c \<and> c \<le> CHR ''Z'' then char_of (of_char c + (32::nat)) else c)"

definition ascii_lower :: "string \<Rightarrow> string" where
  "ascii_lower s = map lower_char s"

text \<open>
  \<open>sorted(xs, key=key, reverse=reverse)\<close>: a stable sort; with \<open>reverse\<close> the list is
  reversed, sorted stably in ascending order and reversed again, so that elements with equal
  keys keep their original order in both directions.
\<close>

definition py_sorted :: "('a \<Rightarrow> 'k::linorder) \<Rightarrow> bool \<Rightarrow> 'a list \<Rightarrow> 'a list" where
  "py_sorted key reverse xs =
     (if reverse then rev (sort_key key (rev xs)) else sort_key key xs)"

section \<open>Data model (models.py)\<close>

definition AGRICULTURAL_DISCLAIMER :: string where
  "AGRICULTURAL_DISCLAIMER =
     ''Verify recommendations with local agricultural experts before application.''"

text \<open>
  A Python \<open>float\<close>: a finite value, an infinity or not-a-number. \<open>float_ge_zero x\<close> is the
  comparison \<open>x >= 0.0\<close> and \<open>float_lt_zero x\<close> is \<open>x < 0.0\<close>; both are false of
  not-a-number.
\<close>

datatype pyfloat = Finite real | PosInf | NegInf | NaN

fun float_ge_zero :: "pyfloat \<Rightarrow> bool" where
  "float_ge_zero (Finite r) = (0 \<le> r)"
| "float_ge_zero PosInf = True"
| "float_ge_zero NegInf = False"
| "float_ge_zero NaN = False"

fun float_lt_zero :: "pyfloat \<Rightarrow> bool" where
  "float_lt_zero (Finite r) = (r < 0)"
| "float_lt_zero PosInf = False"
| "float_lt_zero NegInf = True"
| "float_lt_zero NaN = False"

record MandiPrice =
  commodity :: string
  market :: string
  state :: string
  min_price :: pyfloat
  max_price :: pyfloat
  modal_price :: pyfloat
  date :: string

record PestInfo =
  name :: string
  affected_crops :: "string list"
  symptoms :: "string list"
  treatment :: "string list"
  prevention :: "string list"

record FarmerQuery =
  query :: string
  language :: string
  location :: "string option"

text \<open>
  The field \<open>language\<close> of \<open>FarmerResponse\<close> is named \<open>response_language\<close> here, apart from
  the field of the same name of \<open>FarmerQuery\<close>.
\<close>

record FarmerResponse =
  answer :: string
  sources :: "string list"
  response_language :: string
  disclaimer :: string

text \<open>
  The three price fields of \<open>MandiPrice\<close> are declared \<open>Field(..., ge=0.0)\<close>: building a
  record from its field values checks each price with \<open>>= 0.0\<close> and raises a validation
  error when the comparison is false. No other field of any model carries a constraint.
  The arguments are typed (text and floats), and all seven are given: the errors that the
  validation library raises for a missing argument or for one of another type are outside
  this model.
\<close>

datatype error = InvalidValue

definition new_MandiPrice ::
  "string \<Rightarrow> string \<Rightarrow> string \<Rightarrow> pyfloat \<Rightarrow> pyfloat \<Rightarrow> pyfloat \<Rightarrow> string
     \<Rightarrow> error + MandiPrice" where
  "new_MandiPrice c m s mn mx md d =
     (if \<not> float_ge_zero mn then Inl InvalidValue
      else if \<not> float_ge_zero mx then Inl InvalidValue
      else if \<not> float_ge_zero md then Inl InvalidValue
      else Inr \<lparr>commodity = c, market = m, state = s,
                min_price = mn, max_price = mx, modal_price = md, date = d\<rparr>)"

section \<open>MandiPriceTracker (core.py)\<close>

record MandiPriceTracker =
  store :: "MandiPrice list"

definition MandiPriceTracker_init :: MandiPriceTracker where
  "MandiPriceTracker_init = \<lparr>store = []\<rparr>"

definition add_price :: "MandiPriceTracker \<Rightarrow> MandiPrice \<Rightarrow> MandiPriceTracker" where
  "add_price t price = t\<lparr>store := store t @ [price]\<rparr>"

definition get_prices ::
  "(string \<Rightarrow> string) \<Rightarrow> MandiPriceTracker \<Rightarrow> string \<Rightarrow> string option \<Rightarrow> MandiPrice list" where
  "get_prices lower t commodity_arg state_arg =
     (let comm_lower = lower commodity_arg;
          results = filter (\<lambda>p. lower (commodity p) = comm_lower) (store t);
          results' = (case state_arg of
                        None \<Rightarrow> results
                      | Some st \<Rightarrow>
                          if st \<noteq> [] then
                            (let state_lower = lower st
                             in filter (\<lambda>p. lower (state p) = state_lower) results)
                          else results)
      in py_sorted date True results')"

definition price_trend ::
  "(string \<Rightarrow> string) \<Rightarrow> MandiPriceTracker \<Rightarrow> string \<Rightarrow> string \<Rightarrow> MandiPrice list" where
  "price_trend lower t commodity_arg market_arg =
     (let comm_lower = lower commodity_arg;
          mkt_lower = lower market_arg;
          results = filter (\<lambda>p. lower (commodity p) = comm_lower \<and> lower (market p) = mkt_lower)
                      (store t)
      in py_sorted date False results)"

definition all_prices :: "MandiPriceTracker \<Rightarrow> MandiPrice list" where
  "all_prices t = store t"

section \<open>PestDatabase (core.py)\<close>

definition RAW_PESTS :: "PestInfo list" where
  "RAW_PESTS = [
    \<lparr>name = ''Brown Plant Hopper'',
     affected_crops = [''Rice''],
     symptoms = [''yellowing'', ''wilting'', ''hopperburn'', ''lodging''],
     treatment = [''Apply imidacloprid 17.8 SL @ 125 ml/ha'', ''Drain field for 3-4 days'', ''Apply BPMC 50 EC''],
     prevention = [''Use resistant varieties'', ''Avoid excessive nitrogen'', ''Maintain field drainage'']\<rparr>,
    \<lparr>name = ''Aphids'',
     affected_crops = [''Wheat'', ''Mustard'', ''Cotton'', ''Okra'', ''Groundnut''],
     symptoms = [''curling leaves'', ''yellowing'', ''sticky honeydew'', ''stunted growth'', ''sooty mould''],
     treatment = [''Spray dimethoate 30 EC @ 500 ml/ha'', ''Apply imidacloprid 17.8 SL @ 75 ml/ha'', ''Neem oil spray 5%''],
     prevention = [''Encourage natural predators (ladybird beetles)'', ''Avoid dense planting'', ''Remove weeds'']\<rparr>,
    \<lparr>name = ''Stem Borer'',
     affected_crops = [''Rice'', ''Maize'', ''Sugarcane'', ''Sorghum''],
     symptoms = [''dead heart'', ''white ear'', ''borer entry holes'', ''frass'', ''stem tunnelling''],
     treatment = [''Apply carbofuran 3G @ 20 kg/ha'', ''Release Trichogramma parasitoids'', ''Chlorpyrifos 20 EC''],
     prevention = [''Use light traps'', ''Destroy stubbles after harvest'', ''Balanced nitrogen application'']\<rparr>,
    \<lparr>name = ''Whitefly'',
     affected_crops = [''Cotton'', ''Tomato'', ''Brinjal'', ''Chilli'', ''Cucurbits''],
     symptoms = [''yellowing'', ''silver streaks'', ''sticky leaves'', ''sooty mould'', ''virus transmission''],
     treatment = [''Thiamethoxam 25 WG @ 100 g/ha'', ''Yellow sticky traps'', ''Neem seed kernel extract 5%''],
     prevention = [''Intercropping with marigold'', ''Remove infected plants'', ''Avoid over-irrigation'']\<rparr>,
    \<lparr>name = ''Thrips'',
     affected_crops = [''Chilli'', ''Cotton'', ''Onion'', ''Groundnut''],
     symptoms = [''silver streaks on leaves'', ''upward curling'', ''scarring'', ''bronzing''],
     treatment = [''Spinosad 45 SC @ 100 ml/ha'', ''Fipronil 5 SC @ 600 ml/ha''],
     prevention = [''Blue sticky traps'', ''Avoid planting near maize'', ''Reflective mulch'']\<rparr>,
    \<lparr>name = ''Red Spider Mite'',
     affected_crops = [''Cotton'', ''Brinjal'', ''Okra'', ''Beans'', ''Maize''],
     symptoms = [''bronze speckling'', ''webbing'', ''leaf drop'', ''yellowing''],
     treatment = [''Dicofol 18.5 EC @ 1.5 l/ha'', ''Sulphur 80 WP @ 2.5 kg/ha'', ''Abamectin 1.8 EC''],
     prevention = [''Overhead irrigation reduces mites'', ''Avoid dusty conditions'', ''Predatory mites'']\<rparr>,
    \<lparr>name = ''Mealy Bug'',
     affected_crops = [''Cotton'', ''Grapes'', ''Pomegranate'', ''Papaya''],
     symptoms = [''white cottony masses'', ''yellowing'', ''stunted growth'', ''sooty mould''],
     treatment = [''Profenofos 50 EC @ 1 l/ha'', ''Spray ethion 50 EC'', ''Release Cryptolaemus predators''],
     prevention = [''Destroy crop debris'', ''Ant management'', ''Avoid excess nitrogen'']\<rparr>,
    \<lparr>name = ''Helicoverpa (Bollworm)'',
     affected_crops = [''Cotton'', ''Tomato'', ''Chickpea'', ''Pigeonpea'', ''Maize''],
     symptoms = [''bored bolls/pods/fruit'', ''circular entry holes'', ''larval frass'', ''premature boll/pod drop''],
     treatment = [''Spinosad 45 SC @ 150 ml/ha'', ''Bt spray 750 g/ha'', ''Emamectin benzoate 5 SG''],
     prevention = [''Pheromone traps (5/ha)'', ''Use Bt cotton varieties'', ''Intercrop with sorghum'']\<rparr>,
    \<lparr>name = ''Cutworm'',
     affected_crops = [''Wheat'', ''Maize'', ''Vegetables'', ''Cotton''],
     symptoms = [''cut seedlings at ground level'', ''wilting'', ''night feeding''],
     treatment = [''Chlorpyrifos 20 EC @ 2.5 l/ha soil drench'', ''Poison bait (bran + chlorpyrifos)''],
     prevention = [''Deep ploughing in summer'', ''Remove weeds'', ''Flood irrigation before planting'']\<rparr>,
    \<lparr>name = ''Leaf Folder'',
     affected_crops = [''Rice''],
     symptoms = [''longitudinal folded leaves'', ''white leaf streaks'', ''feeding damage''],
     treatment = [''Chlorpyrifos 20 EC @ 1.5 l/ha'', ''Monocrotophos 36 WSC @ 750 ml/ha''],
     prevention = [''Balanced fertilisation'', ''Avoid dense planting'', ''Light traps'']\<rparr>,
    \<lparr>name = ''Jassid (Leafhopper)'',
     affected_crops = [''Cotton'', ''Groundnut'', ''Okra'', ''Brinjal''],
     symptoms = [''yellowing from leaf margins'', ''leaf curl downward'', ''burning appearance''],
     treatment = [''Imidacloprid 70 WG @ 35 g/ha'', ''Thiamethoxam 25 WG @ 80 g/ha''],
     prevention = [''Hairy-leaved varieties'', ''Avoid close planting'', ''Yellow sticky traps'']\<rparr>,
    \<lparr>name = ''Powdery Mildew'',
     affected_crops = [''Wheat'', ''Grapes'', ''Cucurbits'', ''Pea'', ''Mustard''],
     symptoms = [''white powdery patches'', ''yellowing below'', ''premature leaf drop'', ''stunted growth''],
     treatment = [''Sulphur 80 WP @ 2.5 kg/ha'', ''Propiconazole 25 EC @ 500 ml/ha'', ''Hexaconazole 5 EC''],
     prevention = [''Resistant varieties'', ''Avoid overhead irrigation'', ''Proper plant spacing'']\<rparr>,
    \<lparr>name = ''Blast (Rice Blast)'',
     affected_crops = [''Rice''],
     symptoms = [''diamond-shaped lesions'', ''eye-shaped spots'', ''neck rot'', ''panicle blast''],
     treatment = [''Tricyclazole 75 WP @ 300 g/ha'', ''Isoprothiolane 40 EC @ 750 ml/ha''],
     prevention = [''Balanced nitrogen'', ''Resistant varieties'', ''Silicon application'']\<rparr>,
    \<lparr>name = ''Late Blight'',
     affected_crops = [''Potato'', ''Tomato''],
     symptoms = [''water-soaked lesions'', ''white mouldy growth'', ''rapid wilting'', ''brown rotting tubers''],
     treatment = [''Metalaxyl + Mancozeb 72 WP @ 2 kg/ha'', ''Cymoxanil + Mancozeb''],
     prevention = [''Certified disease-free seed'', ''Avoid over-irrigation'', ''Copper fungicides preventively'']\<rparr>,
    \<lparr>name = ''Yellow Rust'',
     affected_crops = [''Wheat'', ''Barley''],
     symptoms = [''yellow stripe pustules'', ''yellow powder on leaves'', ''stunted growth''],
     treatment = [''Propiconazole 25 EC @ 500 ml/ha'', ''Tebuconazole 250 EW @ 750 ml/ha''],
     prevention = [''Resistant varieties'', ''Early sowing'', ''Balanced nutrition'']\<rparr>,
    \<lparr>name = ''Leaf Blight'',
     affected_crops = [''Rice'', ''Maize'', ''Wheat''],
     symptoms = [''water-soaked lesions turning brown'', ''leaf blighting'', ''straw-coloured patches''],
     treatment = [''Validamycin 3 L @ 2 l/ha'', ''Copper oxychloride 50 WP @ 3 kg/ha''],
     prevention = [''Balanced NPK'', ''Proper drainage'', ''Resistant varieties'']\<rparr>,
    \<lparr>name = ''Fruit Borer'',
     affected_crops = [''Brinjal'', ''Tomato'', ''Chilli''],
     symptoms = [''bored fruits'', ''dropping fruits'', ''larval frass at entry''],
     treatment = [''Emamectin benzoate 5 SG @ 220 g/ha'', ''Spinosad 45 SC @ 100 ml/ha''],
     prevention = [''Pheromone traps'', ''Remove damaged fruits'', ''Inter-cropping'']\<rparr>,
    \<lparr>name = ''Nematodes (Root Knot)'',
     affected_crops = [''Tomato'', ''Brinjal'', ''Groundnut'', ''Banana'', ''Cucurbits''],
     symptoms = [''root galls/knots'', ''stunting'', ''yellowing'', ''poor yield'', ''wilting''],
     treatment = [''Carbofuran 3G @ 1 kg ai/ha'', ''Phorate 10G @ 1 kg ai/ha'', ''Biocontrol with Paecilomyces''],
     prevention = [''Crop rotation with cereals'', ''Marigold inter-cropping'', ''Soil solarisation'']\<rparr>,
    \<lparr>name = ''Downy Mildew'',
     affected_crops = [''Maize'', ''Pearl Millet'', ''Grapes'', ''Cucurbits''],
     symptoms = [''downy white growth on underside'', ''chlorotic patches'', ''downcurled leaves''],
     treatment = [''Metalaxyl 8% + Mancozeb 64% WP @ 2.5 kg/ha'', ''Fosetyl-Al 80 WP''],
     prevention = [''Seed treatment with metalaxyl'', ''Avoid overhead irrigation'', ''Resistant varieties'']\<rparr>,
    \<lparr>name = ''Bacterial Wilt'',
     affected_crops = [''Tomato'', ''Brinjal'', ''Pepper'', ''Potato''],
     symptoms = [''sudden wilting'', ''vascular browning'', ''bacterial ooze in water test''],
     treatment = [''No effective chemical cure; remove and destroy infected plants'', ''Streptomycin sulphate as preventive''],
     prevention = [''Resistant varieties'', ''Soil sterilisation'', ''Crop rotation'', ''Avoid wounding roots'']\<rparr>,
    \<lparr>name = ''Caterpillar (Army Worm)'',
     affected_crops = [''Maize'', ''Sorghum'', ''Rice'', ''Wheat''],
     symptoms = [''ragged leaf feeding'', ''defoliation'', ''windowpane feeding'', ''frass''],
     treatment = [''Chlorpyrifos 20 EC @ 2.5 l/ha'', ''Emamectin benzoate 5 SG'', ''Spinetoram 11.7 SC''],
     prevention = [''Light traps'', ''Birds on field'', ''Early planting'']\<rparr>,
    \<lparr>name = ''Fall Armyworm'',
     affected_crops = [''Maize'', ''Sorghum'', ''Cotton'', ''Rice''],
     symptoms = [''ragged feeding in whorl'', ''frass like sawdust'', ''irregular holes in leaves''],
     treatment = [''Emamectin benzoate 5 SG @ 220 g/ha'', ''Spinetoram 11.7 SC @ 375 ml/ha'', ''Bt spray''],
     prevention = [''Intercrop with Napier grass'', ''Pheromone traps'', ''Avoid late planting'']\<rparr>,
    \<lparr>name = ''Diamond Back Moth'',
     affected_crops = [''Cabbage'', ''Cauliflower'', ''Mustard'', ''Radish''],
     symptoms = [''window pane feeding'', ''shot holes'', ''skeletonised leaves'', ''greenish larvae on underside''],
     treatment = [''Spinosad 45 SC @ 150 ml/ha'', ''Emamectin benzoate 5 SG @ 200 g/ha'', ''Chlorfenapyr 10 SC''],
     prevention = [''Bt crops'', ''Pheromone traps'', ''Natural predators'']\<rparr>,
    \<lparr>name = ''Pod Borer (Gram)'',
     affected_crops = [''Chickpea'', ''Pigeonpea'', ''Cowpea''],
     symptoms = [''bored pods'', ''excreta near entry holes'', ''damaged seeds''],
     treatment = [''Endosulfan 35 EC @ 1.5 l/ha'', ''Profenofos 50 EC @ 1 l/ha''],
     prevention = [''Intercrop chickpea with coriander'', ''Pheromone traps'', ''Early sowing'']\<rparr>,
    \<lparr>name = ''Rust (Groundnut)'',
     affected_crops = [''Groundnut''],
     symptoms = [''small orange-brown pustules'', ''yellowing'', ''defoliation''],
     treatment = [''Mancozeb 75 WP @ 2.5 kg/ha'', ''Chlorothalonil 75 WP @ 1.5 kg/ha''],
     prevention = [''Resistant varieties'', ''Seed treatment with thiram'', ''Early sowing'']\<rparr>,
    \<lparr>name = ''Collar Rot'',
     affected_crops = [''Groundnut'', ''Chickpea'', ''Sunflower''],
     symptoms = [''rotting at collar region'', ''dark brown lesion'', ''plant collapse''],
     treatment = [''Soil drench with carbendazim 0.1%'', ''Thiram seed treatment''],
     prevention = [''Seed treatment'', ''Avoid water-logged conditions'', ''Crop rotation'']\<rparr>,
    \<lparr>name = ''White Grub'',
     affected_crops = [''Sugarcane'', ''Groundnut'', ''Maize'', ''Potato''],
     symptoms = [''plants pulled out easily'', ''severed roots'', ''yellowing'', ''wilting''],
     treatment = [''Chlorpyrifos 20 EC soil incorporation'', ''Imidacloprid 70 WS seed treatment''],
     prevention = [''Summer ploughing to expose grubs'', ''Light traps for adults'', ''Neem cake application'']\<rparr>,
    \<lparr>name = ''Scales'',
     affected_crops = [''Mango'', ''Citrus'', ''Coconut'', ''Grapes''],
     symptoms = [''encrusted bark/leaves'', ''yellowing'', ''sooty mould'', ''branch die-back''],
     treatment = [''DNOC 40 EC @ 1.5 l/ha in water'', ''Machine oil emulsion spray'', ''Dimethoate 30 EC''],
     prevention = [''Prune infested branches'', ''Encourage natural predators'', ''Ant management'']\<rparr>,
    \<lparr>name = ''Mango Hopper'',
     affected_crops = [''Mango''],
     symptoms = [''yellowing and drying of inflorescences'', ''honeydew secretion'', ''sooty mould''],
     treatment = [''Imidacloprid 17.8 SL @ 0.5 ml/l water'', ''Carbaryl 50 WP @ 2 g/l water''],
     prevention = [''Prune dense canopy'', ''Remove weeds'', ''Spray at panicle emergence'']\<rparr>,
    \<lparr>name = ''Coconut Mite (Eriophyid)'',
     affected_crops = [''Coconut''],
     symptoms = [''triangular brown patches on husk'', ''scarring'', ''stunted nut''],
     treatment = [''Wettable sulphur 80 WP @ 2 g/l water'', ''Dicofol 18.5 EC''],
     prevention = [''Avoid water stress'', ''Remove dried leaves'', ''Summer spraying'']\<rparr>]"

record PestDatabase =
  pests :: "PestInfo list"

definition PestDatabase_init :: PestDatabase where
  "PestDatabase_init = \<lparr>pests = RAW_PESTS\<rparr>"

definition all_pests :: "PestDatabase \<Rightarrow> PestInfo list" where
  "all_pests db = pests db"

text \<open>
  \<open>overlap\<close> is the generator sum inside \<open>identify\<close>. Both symptom collections are Python
  sets of lowercased strings, here duplicate-free lists; the sum does not depend on the
  order in which a set is enumerated.
\<close>

definition overlap :: "(string \<Rightarrow> string) \<Rightarrow> string list \<Rightarrow> PestInfo \<Rightarrow> nat" where
  "overlap lower symptoms_lower pest =
     (let pest_symptoms_lower = remdups (map lower (symptoms pest))
      in length (filter (\<lambda>s. list_ex (\<lambda>ps. sublist s ps) pest_symptoms_lower) symptoms_lower))"

definition identify ::
  "(string \<Rightarrow> string) \<Rightarrow> PestDatabase \<Rightarrow> string list \<Rightarrow> PestInfo list" where
  "identify lower db symptoms_arg =
     (let symptoms_lower = remdups (map lower symptoms_arg);
          scored = filter (\<lambda>x. fst x > 0)
                     (map (\<lambda>pest. (overlap lower symptoms_lower pest, pest)) (pests db))
      in map snd (py_sorted fst True scored))"

definition by_crop :: "(string \<Rightarrow> string) \<Rightarrow> PestDatabase \<Rightarrow> string \<Rightarrow> PestInfo list" where
  "by_crop lower db crop_name =
     (let crop_lower = lower crop_name
      in filter (\<lambda>p. list_ex (\<lambda>c. lower c = crop_lower) (affected_crops p)) (pests db))"

section \<open>FarmerAssistant (core.py)\<close>

definition KEYWORD_RESPONSES :: "(string list \<times> string \<times> string list) list" where
  "KEYWORD_RESPONSES = [
    ([''price'', ''mandi'', ''rate'', ''sell'', ''market''],
     ''Mandi prices vary by location and date. Use the 'prices' command or API to fetch current prices for your commodity and state. Agmarknet (agmarknet.gov.in) publishes daily mandi arrivals and prices across India.'',
     [''Agmarknet (agmarknet.gov.in)'', ''eNAM (enam.gov.in)'']),
    ([''pest'', ''insect'', ''bug'', ''disease'', ''fungus'', ''infection''],
     ''Identify the pest or disease by its visible symptoms. Use the 'pest' command with symptom keywords to get matching pests and treatments. Always consult your local Krishi Vigyan Kendra (KVK) for confirmation.'',
     [''ICAR Pest Management'', ''Krishi Vigyan Kendra network'']),
    ([''fertilizer'', ''urea'', ''dap'', ''npk'', ''manure'', ''compost''],
     ''Fertilizer requirements depend on soil test results. Get a soil health card from your state agriculture department. Base fertilizer application on NPK soil test recommendations. ICAR recommends integrated nutrient management combining inorganic and organic sources.'',
     [''Soil Health Card scheme (soilhealth.dac.gov.in)'', ''ICAR nutrient management guidelines'']),
    ([''irrigation'', ''water'', ''drip'', ''sprinkler'', ''rain''],
     ''Irrigation scheduling should be based on crop stage and soil moisture. Drip irrigation can save 40-50% water compared to flood irrigation. PM Krishi Sinchayee Yojana provides subsidies for micro-irrigation systems.'',
     [''PM Krishi Sinchayee Yojana'', ''ICAR crop water requirement data'']),
    ([''seed'', ''variety'', ''sow'', ''hybrid'', ''certified''],
     ''Use certified seeds from authorised dealers to ensure germination rates and disease resistance. State seed corporations and ICAR release improved varieties. Consult your block agriculture officer for variety recommendations suited to your region.'',
     [''National Seeds Corporation (seedsindia.gov.in)'', ''ICAR variety releases'']),
    ([''weather'', ''rain'', ''flood'', ''drought'', ''forecast''],
     ''Monitor IMD weather forecasts at mausam.imd.gov.in. Agromet advisories are issued every Tuesday and Friday for all districts. Subscribe to SMS alerts from your state agriculture department.'',
     [''IMD Agromet Advisory (agromet.imd.gov.in)'', ''Kisan Suvidha app'']),
    ([''loan'', ''credit'', ''kcc'', ''finance'', ''money''],
     ''Kisan Credit Card (KCC) provides short-term credit at 7% interest (4% with prompt repayment). Apply through your nearest bank or primary agriculture credit society. PM Kisan scheme provides Rs 6000 per year in three instalments.'',
     [''Kisan Credit Card (RBI guidelines)'', ''PM-KISAN (pmkisan.gov.in)'']),
    ([''insurance'', ''fasal bima'', ''pradhan mantri''],
     ''Pradhan Mantri Fasal Bima Yojana (PMFBY) covers crop loss due to natural calamities at very low premium rates (2% for kharif, 1.5% for rabi). Enrol through banks or Common Service Centres before the cutoff date.'',
     [''PMFBY (pmfby.gov.in)'', ''Krishi Rakshak portal'']),
    ([''msp'', ''minimum support price'', ''procurement''],
     ''The government announces MSP for 23 kharif and rabi crops. Procurement happens through FCI, NAFED, and state agencies. Register on eMitra or msprice portals for selling at MSP centres. Check latest MSP at agricoop.gov.in.'',
     [''Commission for Agricultural Costs & Prices (cacp.gov.in)'', ''FCI (fci.gov.in)''])]"
definition default_answer :: string where
  "default_answer =
     ''I can help with crop prices, pest identification, fertilizers, irrigation,'' @
     '' seeds, weather, loans, insurance, and MSP. Please describe your query in more'' @
     '' detail or use specific commands for prices and pest identification.''"

definition default_sources :: "string list" where
  "default_sources = [''Kisan Call Centre (1800-180-1551)'', ''Kisan Suvidha App'']"

definition keyword_score :: "string list \<Rightarrow> string \<Rightarrow> nat" where
  "keyword_score keywords query_lower = length (filter (\<lambda>kw. sublist kw query_lower) keywords)"

text \<open>
  One iteration of the loop over the rule table; the loop state is
  \<open>(best_score, best_answer, best_sources)\<close>.
\<close>

fun best_step ::
  "string \<Rightarrow> nat \<times> string \<times> string list \<Rightarrow> string list \<times> string \<times> string list
     \<Rightarrow> nat \<times> string \<times> string list" where
  "best_step query_lower (best_score, best_answer, best_sources) (keywords, answer_text, srcs) =
     (let score = keyword_score keywords query_lower
      in if score > best_score then (score, answer_text, srcs)
         else (best_score, best_answer, best_sources))"

definition best_match ::
  "(string list \<times> string \<times> string list) list \<Rightarrow> string \<Rightarrow> nat \<times> string \<times> string list" where
  "best_match rules query_lower =
     foldl (best_step query_lower) (0, default_answer, default_sources) rules"

definition location_suffix :: "string option \<Rightarrow> string" where
  "location_suffix loc =
     (case loc of
        None \<Rightarrow> []
      | Some l \<Rightarrow>
          if l \<noteq> [] then
            '' For location-specific advice in '' @ l @ '', contact your'' @
            '' local Block Agriculture Officer or Krishi Vigyan Kendra.''
          else [])"

definition respond :: "(string \<Rightarrow> string) \<Rightarrow> FarmerQuery \<Rightarrow> FarmerResponse" where
  "respond lower q =
     (let query_lower = lower (query q);
          best = best_match KEYWORD_RESPONSES query_lower;
          best_answer = fst (snd best) @ location_suffix (location q);
          best_sources = snd (snd best)
      in \<lparr>answer = best_answer, sources = best_sources,
          response_language = language q, disclaimer = AGRICULTURAL_DISCLAIMER\<rparr>)"

section \<open>Example values\<close>

definition price_azadpur :: MandiPrice where
  "price_azadpur =
     \<lparr>commodity = ''Wheat'', market = ''Azadpur'', state = ''Delhi'',
      min_price = Finite 2000, max_price = Finite 2350, modal_price = Finite 2150,
      date = ''2026-02-20''\<rparr>"

definition price_khanna :: MandiPrice where
  "price_khanna =
     \<lparr>commodity = ''Wheat'', market = ''Khanna'', state = ''Punjab'',
      min_price = Finite 2050, max_price = Finite 2400, modal_price = Finite 2200,
      date = ''2026-02-21''\<rparr>"

definition price_indore :: MandiPrice where
  "price_indore =
     \<lparr>commodity = ''Wheat'', market = ''Indore'', state = ''Madhya Pradesh'',
      min_price = Finite 1950, max_price = Finite 2300, modal_price = Finite 2100,
      date = ''2026-02-21''\<rparr>"

definition price_rice :: MandiPrice where
  "price_rice =
     \<lparr>commodity = ''Rice'', market = ''Karnal'', state = ''Haryana'',
      min_price = Finite 1800, max_price = Finite 2200, modal_price = Finite 2000,
      date = ''2026-02-21''\<rparr>"

definition example_tracker :: MandiPriceTracker where
  "example_tracker =
     add_price (add_price (add_price (add_price MandiPriceTracker_init price_azadpur)
       price_khanna) price_indore) price_rice"

text \<open>The score of one row of the rule table against a lowercased query.\<close>

abbreviation rule_score :: "string \<Rightarrow> string list \<times> string \<times> string list \<Rightarrow> nat" where
  "rule_score query_lower r \<equiv> keyword_score (fst r) query_lower"

definition tie_query :: FarmerQuery where
  "tie_query = \<lparr>query = ''Price of PEST control'', language = ''en'', location = None\<rparr>"

definition plain_query :: FarmerQuery where
  "plain_query = \<lparr>query = ''Namaste'', language = ''hi'', location = Some ''Pune''\<rparr>"

definition empty_query :: FarmerQuery where
  "empty_query = \<lparr>query = [], language = ''en'', location = None\<rparr>"

text \<open>
  The overlap score in the words of the specification: the number of observed symptoms, as
  listed, whose lowercase form is contained in some lowercased catalogued symptom of the
  record. It is compared with \<^const>\<open>overlap\<close>, which the source computes.
\<close>

definition spec_overlap :: "(string \<Rightarrow> string) \<Rightarrow> string list \<Rightarrow> PestInfo \<Rightarrow> nat" where
  "spec_overlap lower symptoms_arg pest =
     length (filter (\<lambda>s. list_ex (\<lambda>ps. sublist (lower s) (lower ps)) (symptoms pest)) symptoms_arg)"

definition repeated_symptoms :: "string list" where
  "repeated_symptoms = [''dead heart'', ''dead heart'', ''hopperburn'']"

section \<open>Sorting and filtering lemmas\<close>

lemma set_py_sorted: "set (py_sorted key r xs) = set xs"
  by (simp add: py_sorted_def)

lemma py_sorted_ascending: "sorted_wrt (\<lambda>a b. key a \<le> key b) (py_sorted key False xs)"
proof -
  have "sorted (map key (sort_key key xs))" by (rule sorted_sort_key)
  then show ?thesis by (simp add: py_sorted_def sorted_wrt_map)
qed

lemma py_sorted_descending: "sorted_wrt (\<lambda>a b. key b \<le> key a) (py_sorted key True xs)"
proof -
  have "sorted (map key (sort_key key (rev xs)))" by (rule sorted_sort_key)
  then have "sorted_wrt (\<lambda>a b. key a \<le> key b) (sort_key key (rev xs))"
    by (simp add: sorted_wrt_map)
  then show ?thesis by (simp add: py_sorted_def sorted_wrt_rev)
qed

lemma py_sorted_stable:
  "filter (\<lambda>y. key y = k) (py_sorted key r xs) = filter (\<lambda>y. key y = k) xs"
proof (cases r)
  case True
  have "filter (\<lambda>y. key y = k) (rev (sort_key key (rev xs)))
          = rev (filter (\<lambda>y. key y = k) (sort_key key (rev xs)))"
    by (simp add: rev_filter)
  also have "\<dots> = rev (filter (\<lambda>y. key y = k) (rev xs))"
    by (simp only: sort_key_stable)
  also have "\<dots> = filter (\<lambda>y. key y = k) xs"
    by (simp add: rev_filter)
  finally show ?thesis using True by (simp add: py_sorted_def)
next
  case False
  then show ?thesis by (simp add: py_sorted_def sort_key_stable)
qed

lemma filter_empty_iff: "filter P xs = [] \<longleftrightarrow> (\<forall>x\<in>set xs. \<not> P x)"
  by (induction xs) auto

lemma example_store:
  "store example_tracker = [price_azadpur, price_khanna, price_indore, price_rice]"
  by (simp add: example_tracker_def add_price_def MandiPriceTracker_init_def)

section \<open>MandiPriceTracker: queries\<close>

lemma set_get_prices_None:
  "set (get_prices lower t c None) = {p \<in> set (store t). lower (commodity p) = lower c}"
  by (simp add: get_prices_def Let_def set_py_sorted)

lemma set_get_prices_Some:
  "s \<noteq> [] \<Longrightarrow> set (get_prices lower t c (Some s)) =
     {p \<in> set (store t). lower (commodity p) = lower c \<and> lower (state p) = lower s}"
  by (auto simp add: get_prices_def Let_def set_py_sorted)

lemma get_prices_Some_Nil: "get_prices lower t c (Some []) = get_prices lower t c None"
  by (simp add: get_prices_def)

lemma get_prices_lower_cong: "lower c = lower c' \<Longrightarrow> get_prices lower t c st = get_prices lower t c' st"
  by (simp add: get_prices_def)

lemma get_prices_unknown_commodity:
  "\<forall>p\<in>set (store t). lower (commodity p) \<noteq> lower c \<Longrightarrow> get_prices lower t c st = []"
  by (auto simp add: get_prices_def Let_def py_sorted_def filter_empty_iff split: option.splits)

lemma get_prices_unknown_state:
  "s \<noteq> [] \<Longrightarrow> \<forall>p\<in>set (store t). lower (state p) \<noteq> lower s \<Longrightarrow> get_prices lower t c (Some s) = []"
  by (simp add: get_prices_def Let_def py_sorted_def filter_empty_iff)

lemma price_trend_unknown:
  "(\<forall>p\<in>set (store t). lower (commodity p) \<noteq> lower c) \<or>
   (\<forall>p\<in>set (store t). lower (market p) \<noteq> lower m) \<Longrightarrow> price_trend lower t c m = []"
  by (auto simp add: price_trend_def Let_def py_sorted_def filter_empty_iff)

text \<open>
  Claim C4. For every tracker, commodity, optional state and market, the dates of the records
  returned by \<open>get_prices\<close> never increase along the list (newest first), and the dates of
  the records returned by \<open>price_trend\<close> never decrease (oldest first). Dates are compared
  as strings.
\<close>

theorem price_sort_order:
  "sorted_wrt (\<lambda>a b. date b \<le> date a) (get_prices lower t c st) \<and>
   sorted_wrt (\<lambda>a b. date a \<le> date b) (price_trend lower t c m)"
  by (simp add: get_prices_def price_trend_def Let_def py_sorted_descending py_sorted_ascending)

text \<open>
  Claim C5. For every tracker, commodity \<open>c\<close> and non-empty state \<open>s\<close>: every record of
  \<open>get_prices(c, s)\<close> is a record of \<open>get_prices(c)\<close>; every returned record has state \<open>s\<close>
  up to letter case; the commodity is matched up to letter case and exactly (every returned
  record has commodity \<open>c\<close> up to case, every stored record with that commodity is returned
  by \<open>get_prices(c)\<close>), and two spellings of the commodity that differ in case only give the
  same result.
\<close>

theorem get_prices_filter:
  assumes "s \<noteq> []"
  shows "set (get_prices lower t c (Some s)) \<subseteq> set (get_prices lower t c None)
       \<and> (\<forall>p \<in> set (get_prices lower t c (Some s)). lower (state p) = lower s)
       \<and> (\<forall>p \<in> set (get_prices lower t c st). lower (commodity p) = lower c)
       \<and> (\<forall>p \<in> set (store t). lower (commodity p) = lower c \<longrightarrow> p \<in> set (get_prices lower t c None))
       \<and> (\<forall>c'. lower c' = lower c \<longrightarrow> get_prices lower t c' st = get_prices lower t c st)"
proof (intro conjI)
  show "set (get_prices lower t c (Some s)) \<subseteq> set (get_prices lower t c None)"
    using assms by (auto simp add: set_get_prices_None set_get_prices_Some)
  show "\<forall>p \<in> set (get_prices lower t c (Some s)). lower (state p) = lower s"
    using assms by (simp add: set_get_prices_Some)
  show "\<forall>p \<in> set (get_prices lower t c st). lower (commodity p) = lower c"
  proof (cases st)
    case None
    then show ?thesis by (simp add: set_get_prices_None)
  next
    case (Some s')
    then show ?thesis
      by (cases "s' = []") (simp_all add: get_prices_Some_Nil set_get_prices_None set_get_prices_Some)
  qed
  show "\<forall>p \<in> set (store t). lower (commodity p) = lower c \<longrightarrow> p \<in> set (get_prices lower t c None)"
    by (simp add: set_get_prices_None)
  show "\<forall>c'. lower c' = lower c \<longrightarrow> get_prices lower t c' st = get_prices lower t c st"
    using get_prices_lower_cong by blast
qed

text \<open>
  Witness for C5: a tracker with three wheat records (Delhi, Punjab, Madhya Pradesh) and one
  rice record. Queried as \<open>WHEAT\<close> it returns the three wheat records and not the rice
  record; with state \<open>punjab\<close> it returns the Punjab record alone; the spelling \<open>wheat\<close>
  gives the same list.
\<close>

theorem get_prices_filter_witness:
  "''punjab'' \<noteq> []
   \<and> store example_tracker = [price_azadpur, price_khanna, price_indore, price_rice]
   \<and> get_prices ascii_lower example_tracker ''WHEAT'' None
        = [price_khanna, price_indore, price_azadpur]
   \<and> get_prices ascii_lower example_tracker ''WHEAT'' (Some ''punjab'') = [price_khanna]
   \<and> set (get_prices ascii_lower example_tracker ''WHEAT'' (Some ''punjab''))
        \<subseteq> set (get_prices ascii_lower example_tracker ''WHEAT'' None)
   \<and> ascii_lower (state price_khanna) = ascii_lower ''punjab''
   \<and> ascii_lower (commodity price_khanna) = ascii_lower ''WHEAT''
   \<and> price_indore \<in> set (get_prices ascii_lower example_tracker ''WHEAT'' None)
   \<and> get_prices ascii_lower example_tracker ''wheat'' (Some ''punjab'')
        = get_prices ascii_lower example_tracker ''WHEAT'' (Some ''punjab'')"
proof -
  have h: "''punjab'' \<noteq> []" by simp
  have n: "get_prices ascii_lower example_tracker ''WHEAT'' None
             = [price_khanna, price_indore, price_azadpur]"
    by code_simp
  have e: "get_prices ascii_lower example_tracker ''WHEAT'' (Some ''punjab'') = [price_khanna]"
    by code_simp
  have l: "ascii_lower ''wheat'' = ascii_lower ''WHEAT''" by code_simp
  have li: "ascii_lower (commodity price_indore) = ascii_lower ''WHEAT''" by code_simp
  have mi: "price_indore \<in> set (store example_tracker)" by (simp add: example_store)
  note th = get_prices_filter [OF h, of ascii_lower example_tracker "''WHEAT''" "Some ''punjab''"]
  from th have 1: "set (get_prices ascii_lower example_tracker ''WHEAT'' (Some ''punjab''))
        \<subseteq> set (get_prices ascii_lower example_tracker ''WHEAT'' None)" by (rule conjunct1)
  from th e have 2: "ascii_lower (state price_khanna) = ascii_lower ''punjab''" by simp
  from th e have 3: "ascii_lower (commodity price_khanna) = ascii_lower ''WHEAT''" by simp
  from th li mi have 4: "price_indore \<in> set (get_prices ascii_lower example_tracker ''WHEAT'' None)"
    by blast
  from th l have 5: "get_prices ascii_lower example_tracker ''wheat'' (Some ''punjab'')
        = get_prices ascii_lower example_tracker ''WHEAT'' (Some ''punjab'')" by blast
  from h example_store n e 1 2 3 4 5 show ?thesis by (intro conjI)
qed

text \<open>
  Claim C10. An empty-string state argument is treated as no state argument: for every
  tracker and commodity \<open>c\<close>, \<open>get_prices(c, "")\<close> is \<open>get_prices(c)\<close>, so the empty string
  does not select the records whose state is empty.
\<close>

theorem get_prices_empty_state: "get_prices lower t c (Some []) = get_prices lower t c None"
  by (simp add: get_prices_def)

section \<open>Price validation\<close>

lemma float_not_ge_zero: "\<not> float_ge_zero x \<longleftrightarrow> float_lt_zero x \<or> x = NaN"
  by (cases x) auto

text \<open>
  Claim C7, as the code has it. Building a price record from text and float field values
  fails, with the error \<open>InvalidValue\<close>, exactly when one of the minimum, maximum and modal
  price is not \<open>>= 0.0\<close>, which is the case when it is negative or not-a-number. In
  particular a negative price always fails. When the three prices pass, the record with
  exactly the given field values is returned, so every record that construction returns has
  its three prices at least 0. \<open>add_price\<close> stores the record it is given and checks nothing:
  a tracker whose records have prices at least 0 keeps that property when a constructed
  record is added.
\<close>

theorem new_MandiPrice_validation:
  "(new_MandiPrice c m s mn mx md d = Inl InvalidValue \<longleftrightarrow>
      (float_lt_zero mn \<or> mn = NaN) \<or> (float_lt_zero mx \<or> mx = NaN)
        \<or> (float_lt_zero md \<or> md = NaN))
   \<and> (float_lt_zero mn \<or> float_lt_zero mx \<or> float_lt_zero md \<longrightarrow>
        new_MandiPrice c m s mn mx md d = Inl InvalidValue)
   \<and> (float_ge_zero mn \<and> float_ge_zero mx \<and> float_ge_zero md \<longrightarrow>
        new_MandiPrice c m s mn mx md d
          = Inr \<lparr>commodity = c, market = m, state = s,
                 min_price = mn, max_price = mx, modal_price = md, date = d\<rparr>)
   \<and> (\<forall>p. new_MandiPrice c m s mn mx md d = Inr p \<longrightarrow>
          float_ge_zero (min_price p) \<and> float_ge_zero (max_price p)
            \<and> float_ge_zero (modal_price p))
   \<and> store (add_price t q) = store t @ [q]
   \<and> ((\<forall>p\<in>set (store t). float_ge_zero (min_price p) \<and> float_ge_zero (max_price p)
            \<and> float_ge_zero (modal_price p))
        \<and> new_MandiPrice c m s mn mx md d = Inr q \<longrightarrow>
        (\<forall>p\<in>set (store (add_price t q)). float_ge_zero (min_price p)
            \<and> float_ge_zero (max_price p) \<and> float_ge_zero (modal_price p)))"
proof -
  have c1: "new_MandiPrice c m s mn mx md d = Inl InvalidValue \<longleftrightarrow>
      (float_lt_zero mn \<or> mn = NaN) \<or> (float_lt_zero mx \<or> mx = NaN)
        \<or> (float_lt_zero md \<or> md = NaN)"
    by (simp add: new_MandiPrice_def float_not_ge_zero [symmetric])
  have c2: "float_lt_zero mn \<or> float_lt_zero mx \<or> float_lt_zero md \<longrightarrow>
        new_MandiPrice c m s mn mx md d = Inl InvalidValue"
    using c1 by blast
  have c3: "float_ge_zero mn \<and> float_ge_zero mx \<and> float_ge_zero md \<longrightarrow>
        new_MandiPrice c m s mn mx md d
          = Inr \<lparr>commodity = c, market = m, state = s,
                 min_price = mn, max_price = mx, modal_price = md, date = d\<rparr>"
    by (simp add: new_MandiPrice_def)
  have ok: "float_ge_zero (min_price p) \<and> float_ge_zero (max_price p)
            \<and> float_ge_zero (modal_price p)"
    if "new_MandiPrice c m s mn mx md d = Inr p" for p
    using that by (auto simp add: new_MandiPrice_def split: if_splits)
  then have c4: "\<forall>p. new_MandiPrice c m s mn mx md d = Inr p \<longrightarrow>
          float_ge_zero (min_price p) \<and> float_ge_zero (max_price p)
            \<and> float_ge_zero (modal_price p)"
    by blast
  have c5: "store (add_price t q) = store t @ [q]" by (simp add: add_price_def)
  have c6: "(\<forall>p\<in>set (store t). float_ge_zero (min_price p) \<and> float_ge_zero (max_price p)
            \<and> float_ge_zero (modal_price p))
        \<and> new_MandiPrice c m s mn mx md d = Inr q \<longrightarrow>
        (\<forall>p\<in>set (store (add_price t q)). float_ge_zero (min_price p)
            \<and> float_ge_zero (max_price p) \<and> float_ge_zero (modal_price p))"
    using ok [of q] by (auto simp add: c5)
  show ?thesis
    by (rule conjI [OF c1 conjI [OF c2 conjI [OF c3 conjI [OF c4 conjI [OF c5 c6]]]]])
qed

text \<open>
  Witness for C7: a record with minimum price \<open>-100\<close> is refused with \<open>InvalidValue\<close>; the
  Khanna record is built from its field values, and adding it to the tracker that holds the
  Azadpur record gives a tracker whose two records have prices at least 0.
\<close>

theorem new_MandiPrice_validation_witness:
  "float_lt_zero (Finite (- 100))
   \<and> new_MandiPrice ''wheat'' ''Delhi'' ''Delhi'' (Finite (- 100)) (Finite 2000) (Finite 1900)
        ''2026-02-26'' = Inl InvalidValue
   \<and> new_MandiPrice ''Wheat'' ''Khanna'' ''Punjab'' (Finite 2050) (Finite 2400) (Finite 2200)
        ''2026-02-21'' = Inr price_khanna
   \<and> float_ge_zero (min_price price_khanna) \<and> float_ge_zero (max_price price_khanna)
   \<and> float_ge_zero (modal_price price_khanna)
   \<and> store (add_price (add_price MandiPriceTracker_init price_azadpur) price_khanna)
        = [price_azadpur, price_khanna]
   \<and> list_all (\<lambda>p. float_ge_zero (min_price p) \<and> float_ge_zero (max_price p)
                    \<and> float_ge_zero (modal_price p))
        (store (add_price (add_price MandiPriceTracker_init price_azadpur) price_khanna))"
proof -
  let ?t = "add_price MandiPriceTracker_init price_azadpur"
  have neg: "float_lt_zero (Finite (- 100))" by simp
  have ok: "float_ge_zero (Finite 2050) \<and> float_ge_zero (Finite 2400) \<and> float_ge_zero (Finite 2200)"
    by simp
  have st: "store ?t = [price_azadpur]"
    by (simp add: add_price_def MandiPriceTracker_init_def)
  have inv: "\<forall>p\<in>set (store ?t). float_ge_zero (min_price p) \<and> float_ge_zero (max_price p)
            \<and> float_ge_zero (modal_price p)"
    by (simp add: add_price_def MandiPriceTracker_init_def price_azadpur_def)
  note th1 = new_MandiPrice_validation [of "''wheat''" "''Delhi''" "''Delhi''" "Finite (- 100)"
      "Finite 2000" "Finite 1900" "''2026-02-26''" ?t price_khanna]
  note th2 = new_MandiPrice_validation [of "''Wheat''" "''Khanna''" "''Punjab''" "Finite 2050"
      "Finite 2400" "Finite 2200" "''2026-02-21''" ?t price_khanna]
  from th1 neg have 1: "new_MandiPrice ''wheat'' ''Delhi'' ''Delhi'' (Finite (- 100)) (Finite 2000)
      (Finite 1900) ''2026-02-26'' = Inl InvalidValue" by blast
  from th2 ok have 2: "new_MandiPrice ''Wheat'' ''Khanna'' ''Punjab'' (Finite 2050) (Finite 2400)
      (Finite 2200) ''2026-02-21'' = Inr price_khanna"
    unfolding price_khanna_def by blast
  from th2 2 have 3: "float_ge_zero (min_price price_khanna) \<and> float_ge_zero (max_price price_khanna)
      \<and> float_ge_zero (modal_price price_khanna)" by blast
  from th2 st have 4: "store (add_price ?t price_khanna) = [price_azadpur, price_khanna]" by simp
  from th2 inv 2 have "\<forall>p\<in>set (store (add_price ?t price_khanna)). float_ge_zero (min_price p)
      \<and> float_ge_zero (max_price p) \<and> float_ge_zero (modal_price p)" by blast
  then have 5: "list_all (\<lambda>p. float_ge_zero (min_price p) \<and> float_ge_zero (max_price p)
      \<and> float_ge_zero (modal_price p)) (store (add_price ?t price_khanna))"
    by (simp only: list_all_iff)
  from neg 1 2 3 4 5 show ?thesis by (intro conjI) simp_all
qed

text \<open>
  Counterexample to C7 as stated. A record whose minimum price is not-a-number is refused,
  although none of its three prices is negative.
\<close>

theorem nan_price_counterexample:
  "new_MandiPrice ''wheat'' ''Delhi'' ''Delhi'' NaN (Finite 2000) (Finite 1900) ''2026-02-26''
     = Inl InvalidValue
   \<and> \<not> float_lt_zero NaN \<and> \<not> float_lt_zero (Finite 2000) \<and> \<not> float_lt_zero (Finite 1900)"
  by (simp add: new_MandiPrice_def)

section \<open>PestDatabase: unmatched input\<close>

lemma by_crop_unknown:
  "\<forall>p\<in>set (pests db). \<forall>cr\<in>set (affected_crops p). lower cr \<noteq> lower crop \<Longrightarrow> by_crop lower db crop = []"
  by (simp add: by_crop_def Let_def filter_empty_iff list_ex_iff)

lemma overlap_Nil: "overlap lower [] pest = 0"
  by (simp add: overlap_def)

lemma identify_Nil: "identify lower db [] = []"
  by (simp add: identify_def Let_def overlap_Nil py_sorted_def)

lemma overlap_no_match:
  assumes "\<forall>x\<in>set sl. \<forall>ps\<in>set (symptoms pest). \<not> sublist x (lower ps)"
  shows "overlap lower sl pest = 0"
  using assms by (simp add: overlap_def Let_def filter_empty_iff list_ex_iff)

lemma identify_no_match:
  assumes "\<forall>x\<in>set xs. \<forall>p\<in>set (pests db). \<forall>ps\<in>set (symptoms p). \<not> sublist (lower x) (lower ps)"
  shows "identify lower db xs = []"
proof -
  have "overlap lower (remdups (map lower xs)) p = 0" if "p \<in> set (pests db)" for p
    using assms that by (intro overlap_no_match) auto
  then show ?thesis
    by (simp add: identify_def Let_def py_sorted_def filter_empty_iff)
qed

lemma no_such_symptom:
  "list_all (\<lambda>p. list_all (\<lambda>ps. \<not> sublist (ascii_lower ''no-such-symptom-xyz'') (ascii_lower ps))
      (symptoms p)) RAW_PESTS"
  by code_simp

lemma no_such_crop:
  "list_all (\<lambda>p. list_all (\<lambda>cr. ascii_lower cr \<noteq> ascii_lower ''Dragonfruit'') (affected_crops p))
     RAW_PESTS"
  by code_simp

text \<open>
  Claim C6, as the code has it. The queries are total functions (no branch of the
  source raises) and return the empty list on unmatched input: \<open>get_prices\<close> and
  \<open>price_trend\<close> on a commodity no record has; \<open>get_prices\<close> on a non-empty state no record
  has; \<open>price_trend\<close> on a market no record has; \<open>by_crop\<close> on a crop no record lists;
  \<open>identify\<close> on the empty symptom list and on symptoms contained in no catalogued symptom.
  The state must be non-empty: an empty state argument switches the state filter off.
\<close>

theorem unknown_keys_empty:
  "((\<forall>p\<in>set (store t). lower (commodity p) \<noteq> lower c) \<longrightarrow>
       get_prices lower t c st = [] \<and> price_trend lower t c m = [])
   \<and> (s \<noteq> [] \<and> (\<forall>p\<in>set (store t). lower (state p) \<noteq> lower s) \<longrightarrow>
       get_prices lower t c (Some s) = [])
   \<and> ((\<forall>p\<in>set (store t). lower (market p) \<noteq> lower m) \<longrightarrow> price_trend lower t c m = [])
   \<and> ((\<forall>p\<in>set (pests db). \<forall>cr\<in>set (affected_crops p). lower cr \<noteq> lower crop) \<longrightarrow>
       by_crop lower db crop = [])
   \<and> identify lower db [] = []
   \<and> ((\<forall>x\<in>set xs. \<forall>p\<in>set (pests db). \<forall>ps\<in>set (symptoms p).
          \<not> sublist (lower x) (lower ps)) \<longrightarrow> identify lower db xs = [])"
proof (intro conjI impI)
  assume h: "\<forall>p\<in>set (store t). lower (commodity p) \<noteq> lower c"
  show "get_prices lower t c st = []" using h by (rule get_prices_unknown_commodity)
  show "price_trend lower t c m = []" using h by (simp add: price_trend_unknown)
next
  assume "s \<noteq> [] \<and> (\<forall>p\<in>set (store t). lower (state p) \<noteq> lower s)"
  then show "get_prices lower t c (Some s) = []" by (simp add: get_prices_unknown_state)
next
  assume "\<forall>p\<in>set (store t). lower (market p) \<noteq> lower m"
  then show "price_trend lower t c m = []" by (simp add: price_trend_unknown)
next
  assume "\<forall>p\<in>set (pests db). \<forall>cr\<in>set (affected_crops p). lower cr \<noteq> lower crop"
  then show "by_crop lower db crop = []" by (rule by_crop_unknown)
next
  show "identify lower db [] = []" by (rule identify_Nil)
next
  assume "\<forall>x\<in>set xs. \<forall>p\<in>set (pests db). \<forall>ps\<in>set (symptoms p). \<not> sublist (lower x) (lower ps)"
  then show "identify lower db xs = []" by (rule identify_no_match)
qed

text \<open>
  Witness for C6: unknown commodity, state and market on the example tracker; an unknown
  crop, the empty symptom list and an unknown symptom on the built-in catalogue.
\<close>

theorem unknown_keys_empty_witness:
  "get_prices ascii_lower example_tracker ''Saffron'' None = []
   \<and> price_trend ascii_lower example_tracker ''Saffron'' ''Khanna'' = []
   \<and> get_prices ascii_lower example_tracker ''Wheat'' (Some ''Kerala'') = []
   \<and> price_trend ascii_lower example_tracker ''Wheat'' ''Nashik'' = []
   \<and> by_crop ascii_lower PestDatabase_init ''Dragonfruit'' = []
   \<and> identify ascii_lower PestDatabase_init [] = []
   \<and> identify ascii_lower PestDatabase_init [''no-such-symptom-xyz''] = []"
proof -
  have c: "\<forall>p\<in>set (store example_tracker). ascii_lower (commodity p) \<noteq> ascii_lower ''Saffron''"
    by code_simp
  have s: "''Kerala'' \<noteq> []
      \<and> (\<forall>p\<in>set (store example_tracker). ascii_lower (state p) \<noteq> ascii_lower ''Kerala'')"
    by code_simp
  have m: "\<forall>p\<in>set (store example_tracker). ascii_lower (market p) \<noteq> ascii_lower ''Nashik''"
    by code_simp
  have cr: "\<forall>p\<in>set (pests PestDatabase_init). \<forall>cr\<in>set (affected_crops p).
              ascii_lower cr \<noteq> ascii_lower ''Dragonfruit''"
    using no_such_crop by (simp add: PestDatabase_init_def list_all_iff)
  have sy: "\<forall>x\<in>set [''no-such-symptom-xyz'']. \<forall>p\<in>set (pests PestDatabase_init).
              \<forall>ps\<in>set (symptoms p). \<not> sublist (ascii_lower x) (ascii_lower ps)"
    using no_such_symptom by (simp add: PestDatabase_init_def list_all_iff)
  note th1 = unknown_keys_empty [of example_tracker ascii_lower "''Saffron''" None "''Khanna''"
      "''Kerala''" PestDatabase_init "''Dragonfruit''" "[''no-such-symptom-xyz'']"]
  note th2 = unknown_keys_empty [of example_tracker ascii_lower "''Wheat''" None "''Nashik''"
      "''Kerala''" PestDatabase_init "''Dragonfruit''" "[''no-such-symptom-xyz'']"]
  from th1 c have 1: "get_prices ascii_lower example_tracker ''Saffron'' None = []"
    and 2: "price_trend ascii_lower example_tracker ''Saffron'' ''Khanna'' = []" by blast+
  from th2 s have 3: "get_prices ascii_lower example_tracker ''Wheat'' (Some ''Kerala'') = []"
    by blast
  from th2 m have 4: "price_trend ascii_lower example_tracker ''Wheat'' ''Nashik'' = []" by blast
  from th2 cr have 5: "by_crop ascii_lower PestDatabase_init ''Dragonfruit'' = []" by blast
  from th2 have 6: "identify ascii_lower PestDatabase_init [] = []" by blast
  from th2 sy have 7: "identify ascii_lower PestDatabase_init [''no-such-symptom-xyz''] = []"
    by blast
  from 1 2 3 4 5 6 7 show ?thesis by simp
qed

text \<open>
  Counterexample to C6 as stated. The example tracker holds four records, in the states
  Delhi, Punjab, Madhya Pradesh and Haryana; the empty string is a state that no record has;
  \<open>get_prices\<close> for wheat with that state returns the three wheat records, not the empty
  list.
\<close>

theorem unknown_state_counterexample:
  "store example_tracker = [price_azadpur, price_khanna, price_indore, price_rice]
   \<and> ascii_lower (state price_azadpur) \<noteq> ascii_lower []
   \<and> ascii_lower (state price_khanna) \<noteq> ascii_lower []
   \<and> ascii_lower (state price_indore) \<noteq> ascii_lower []
   \<and> ascii_lower (state price_rice) \<noteq> ascii_lower []
   \<and> get_prices ascii_lower example_tracker ''Wheat'' (Some [])
        = [price_khanna, price_indore, price_azadpur]"
  by code_simp

section \<open>PestDatabase: ranking by symptom overlap\<close>

lemma insort_key_map:
  "insort_key f (g a) (map g xs) = map g (insort_key (\<lambda>x. f (g x)) a xs)"
  by (induction xs) simp_all

lemma sort_key_map: "sort_key f (map g xs) = map g (sort_key (\<lambda>x. f (g x)) xs)"
  by (induction xs) (simp_all add: insort_key_map)

lemma py_sorted_map: "py_sorted f r (map g xs) = map g (py_sorted (\<lambda>x. f (g x)) r xs)"
  by (simp add: py_sorted_def sort_key_map rev_map)

lemma identify_alt:
  "identify lower db xs =
     py_sorted (overlap lower (remdups (map lower xs))) True
       (filter (\<lambda>p. 0 < overlap lower (remdups (map lower xs)) p) (pests db))"
proof -
  let ?sc = "overlap lower (remdups (map lower xs))"
  let ?g = "\<lambda>pest. (?sc pest, pest)"
  have "filter (\<lambda>x. 0 < fst x) (map ?g (pests db)) = map ?g (filter (\<lambda>p. 0 < ?sc p) (pests db))"
    by (simp add: filter_map o_def)
  then have "identify lower db xs = map snd (py_sorted fst True (map ?g (filter (\<lambda>p. 0 < ?sc p) (pests db))))"
    by (simp add: identify_def Let_def)
  also have "\<dots> = map snd (map ?g (py_sorted (\<lambda>x. fst (?g x)) True (filter (\<lambda>p. 0 < ?sc p) (pests db))))"
    by (simp only: py_sorted_map)
  also have "\<dots> = py_sorted ?sc True (filter (\<lambda>p. 0 < ?sc p) (pests db))"
    by (simp add: o_def)
  finally show ?thesis .
qed

lemma overlap_card:
  "overlap lower (remdups (map lower xs)) p
     = card {s \<in> lower ` set xs. \<exists>ps\<in>set (symptoms p). sublist s (lower ps)}"
proof -
  let ?P = "\<lambda>s. list_ex (\<lambda>ps. sublist s ps) (remdups (map lower (symptoms p)))"
  have "overlap lower (remdups (map lower xs)) p = length (filter ?P (remdups (map lower xs)))"
    by (simp add: overlap_def Let_def)
  also have "\<dots> = card (set (filter ?P (remdups (map lower xs))))"
    by (rule distinct_card [symmetric]) simp
  also have "set (filter ?P (remdups (map lower xs)))
      = {s \<in> lower ` set xs. \<exists>ps\<in>set (symptoms p). sublist s (lower ps)}"
    by (auto simp add: list_ex_iff)
  finally show ?thesis .
qed

text \<open>
  Claim C2, as the code has it. \<open>identify\<close> gives each catalogue record a score: the number
  of distinct lowercased observed symptoms that are contained in some lowercased catalogued
  symptom of the record. The result holds exactly the records with a positive score, is
  sorted by score in descending order, and lists the records of each score in the order of
  the catalogue. An observed symptom given twice (or in two spellings that differ in case
  only) counts once.
\<close>

theorem identify_ranking:
  "overlap lower (remdups (map lower xs)) p
     = card {s \<in> lower ` set xs. \<exists>ps\<in>set (symptoms p). sublist s (lower ps)}
   \<and> set (identify lower db xs) = {p \<in> set (pests db). 0 < overlap lower (remdups (map lower xs)) p}
   \<and> sorted_wrt (\<lambda>a b. overlap lower (remdups (map lower xs)) b \<le> overlap lower (remdups (map lower xs)) a)
        (identify lower db xs)
   \<and> (\<forall>k. filter (\<lambda>p. overlap lower (remdups (map lower xs)) p = k) (identify lower db xs)
          = filter (\<lambda>p. overlap lower (remdups (map lower xs)) p = k \<and> 0 < k) (pests db))"
proof (intro conjI allI)
  let ?sc = "overlap lower (remdups (map lower xs))"
  show "?sc p = card {s \<in> lower ` set xs. \<exists>ps\<in>set (symptoms p). sublist s (lower ps)}"
    by (rule overlap_card)
  show "set (identify lower db xs) = {p \<in> set (pests db). 0 < ?sc p}"
    by (simp add: identify_alt set_py_sorted)
  show "sorted_wrt (\<lambda>a b. ?sc b \<le> ?sc a) (identify lower db xs)"
    by (simp only: identify_alt py_sorted_descending)
  fix k
  have "filter (\<lambda>p. ?sc p = k) (identify lower db xs)
          = filter (\<lambda>p. ?sc p = k) (filter (\<lambda>p. 0 < ?sc p) (pests db))"
    by (simp only: identify_alt py_sorted_stable)
  also have "\<dots> = filter (\<lambda>p. ?sc p = k \<and> 0 < k) (pests db)"
    by (auto intro: filter_cong)
  finally show "filter (\<lambda>p. ?sc p = k) (identify lower db xs)
          = filter (\<lambda>p. ?sc p = k \<and> 0 < k) (pests db)" .
qed

text \<open>
  Counterexample to C2 as stated. For the observed symptoms \<open>dead heart\<close>, \<open>dead heart\<close>,
  \<open>hopperburn\<close> the count over the observed list is 1 for Brown Plant Hopper and 2 for Stem
  Borer, so a ranking by that count puts Stem Borer first. The code scores both records 1
  and returns them in catalogue order, Brown Plant Hopper first.
\<close>

theorem repeated_symptom_counterexample:
  "map name (identify ascii_lower PestDatabase_init repeated_symptoms)
     = [''Brown Plant Hopper'', ''Stem Borer'']
   \<and> name (RAW_PESTS ! 0) = ''Brown Plant Hopper'' \<and> name (RAW_PESTS ! 2) = ''Stem Borer''
   \<and> spec_overlap ascii_lower repeated_symptoms (RAW_PESTS ! 0) = 1
   \<and> spec_overlap ascii_lower repeated_symptoms (RAW_PESTS ! 2) = 2
   \<and> overlap ascii_lower (remdups (map ascii_lower repeated_symptoms)) (RAW_PESTS ! 2) = 1"
  by code_simp

section \<open>FarmerAssistant\<close>

lemma best_step_alt:
  "best_step ql st r =
     (if fst st < keyword_score (fst r) ql then (keyword_score (fst r) ql, snd r) else st)"
  by (cases st; cases r) (auto simp add: Let_def)

lemma foldl_best_step:
  "(foldl (best_step ql) (b0, a0, s0) rules = (b0, a0, s0)
      \<and> (\<forall>j<length rules. rule_score ql (rules ! j) \<le> b0))
   \<or> (\<exists>i<length rules.
        foldl (best_step ql) (b0, a0, s0) rules
          = (rule_score ql (rules ! i), fst (snd (rules ! i)), snd (snd (rules ! i)))
        \<and> b0 < rule_score ql (rules ! i)
        \<and> (\<forall>j<i. rule_score ql (rules ! j) < rule_score ql (rules ! i))
        \<and> (\<forall>j<length rules. rule_score ql (rules ! j) \<le> rule_score ql (rules ! i)))"
proof (induction rules rule: rev_induct)
  case Nil
  then show ?case by simp
next
  case (snoc r rules)
  obtain kws ans srcs where r: "r = (kws, ans, srcs)" by (cases r) auto
  let ?n = "length rules"
  let ?sr = "keyword_score kws ql"
  from snoc.IH show ?case
  proof (elim disjE conjE exE)
    assume st: "foldl (best_step ql) (b0, a0, s0) rules = (b0, a0, s0)"
      and le: "\<forall>j<length rules. rule_score ql (rules ! j) \<le> b0"
    show ?thesis
    proof (cases "b0 < ?sr")
      case True
      have "foldl (best_step ql) (b0, a0, s0) (rules @ [r]) = (?sr, ans, srcs)"
        using st True by (simp add: r best_step_alt del: best_step.simps)
      moreover have "\<forall>j<?n. rule_score ql ((rules @ [r]) ! j) < ?sr"
        using le True by (auto simp add: nth_append)
      moreover have "\<forall>j<length (rules @ [r]). rule_score ql ((rules @ [r]) ! j) \<le> ?sr"
        using le True by (auto simp add: nth_append r less_Suc_eq)
      ultimately have "?n < length (rules @ [r]) \<and>
          foldl (best_step ql) (b0, a0, s0) (rules @ [r])
            = (rule_score ql ((rules @ [r]) ! ?n), fst (snd ((rules @ [r]) ! ?n)),
               snd (snd ((rules @ [r]) ! ?n)))
          \<and> b0 < rule_score ql ((rules @ [r]) ! ?n)
          \<and> (\<forall>j<?n. rule_score ql ((rules @ [r]) ! j) < rule_score ql ((rules @ [r]) ! ?n))
          \<and> (\<forall>j<length (rules @ [r]). rule_score ql ((rules @ [r]) ! j)
                \<le> rule_score ql ((rules @ [r]) ! ?n))"
        using True by (simp add: r)
      then show ?thesis by blast
    next
      case False
      have "foldl (best_step ql) (b0, a0, s0) (rules @ [r]) = (b0, a0, s0)"
        using st False by (simp add: r best_step_alt del: best_step.simps)
      moreover have "\<forall>j<length (rules @ [r]). rule_score ql ((rules @ [r]) ! j) \<le> b0"
        using le False by (auto simp add: nth_append r less_Suc_eq)
      ultimately show ?thesis by blast
    qed
  next
    fix i
    assume i: "i < length rules"
      and st: "foldl (best_step ql) (b0, a0, s0) rules
                = (rule_score ql (rules ! i), fst (snd (rules ! i)), snd (snd (rules ! i)))"
      and gt: "b0 < rule_score ql (rules ! i)"
      and before: "\<forall>j<i. rule_score ql (rules ! j) < rule_score ql (rules ! i)"
      and le: "\<forall>j<length rules. rule_score ql (rules ! j) \<le> rule_score ql (rules ! i)"
    let ?si = "rule_score ql (rules ! i)"
    show ?thesis
    proof (cases "?si < ?sr")
      case True
      have "foldl (best_step ql) (b0, a0, s0) (rules @ [r]) = (?sr, ans, srcs)"
        using st True by (simp add: r best_step_alt del: best_step.simps)
      moreover have "\<forall>j<?n. rule_score ql ((rules @ [r]) ! j) < ?sr"
        using le True by (auto simp add: nth_append intro: le_less_trans)
      moreover have "\<forall>j<length (rules @ [r]). rule_score ql ((rules @ [r]) ! j) \<le> ?sr"
      proof (intro allI impI)
        fix j assume "j < length (rules @ [r])"
        then consider "j < ?n" | "j = ?n" by fastforce
        then show "rule_score ql ((rules @ [r]) ! j) \<le> ?sr"
        proof cases
          case 1
          then have "rule_score ql (rules ! j) \<le> ?si" using le by blast
          then show ?thesis using 1 True by (simp add: nth_append)
        next
          case 2
          then show ?thesis by (simp add: r)
        qed
      qed
      moreover have "b0 < ?sr" using gt True by simp
      ultimately have "?n < length (rules @ [r]) \<and>
          foldl (best_step ql) (b0, a0, s0) (rules @ [r])
            = (rule_score ql ((rules @ [r]) ! ?n), fst (snd ((rules @ [r]) ! ?n)),
               snd (snd ((rules @ [r]) ! ?n)))
          \<and> b0 < rule_score ql ((rules @ [r]) ! ?n)
          \<and> (\<forall>j<?n. rule_score ql ((rules @ [r]) ! j) < rule_score ql ((rules @ [r]) ! ?n))
          \<and> (\<forall>j<length (rules @ [r]). rule_score ql ((rules @ [r]) ! j)
                \<le> rule_score ql ((rules @ [r]) ! ?n))"
        by (simp add: r)
      then show ?thesis by blast
    next
      case False
      have ii: "(rules @ [r]) ! i = rules ! i" using i by (simp add: nth_append)
      have "foldl (best_step ql) (b0, a0, s0) (rules @ [r])
              = (?si, fst (snd (rules ! i)), snd (snd (rules ! i)))"
        using st False by (simp add: r best_step_alt del: best_step.simps)
      moreover have "\<forall>j<i. rule_score ql ((rules @ [r]) ! j) < ?si"
        using before i by (simp add: nth_append)
      moreover have "\<forall>j<length (rules @ [r]). rule_score ql ((rules @ [r]) ! j) \<le> ?si"
      proof (intro allI impI)
        fix j assume "j < length (rules @ [r])"
        then consider "j < ?n" | "j = ?n" by fastforce
        then show "rule_score ql ((rules @ [r]) ! j) \<le> ?si"
        proof cases
          case 1
          then show ?thesis using le by (simp add: nth_append)
        next
          case 2
          then show ?thesis using False by (simp add: r)
        qed
      qed
      ultimately have "i < length (rules @ [r]) \<and>
          foldl (best_step ql) (b0, a0, s0) (rules @ [r])
            = (rule_score ql ((rules @ [r]) ! i), fst (snd ((rules @ [r]) ! i)),
               snd (snd ((rules @ [r]) ! i)))
          \<and> b0 < rule_score ql ((rules @ [r]) ! i)
          \<and> (\<forall>j<i. rule_score ql ((rules @ [r]) ! j) < rule_score ql ((rules @ [r]) ! i))
          \<and> (\<forall>j<length (rules @ [r]). rule_score ql ((rules @ [r]) ! j)
                \<le> rule_score ql ((rules @ [r]) ! i))"
        using i gt by (simp add: ii)
      then show ?thesis by blast
    qed
  qed
qed

lemma best_match_cases:
  "(best_match rules ql = (0, default_answer, default_sources)
      \<and> (\<forall>j<length rules. rule_score ql (rules ! j) = 0))
   \<or> (\<exists>i<length rules.
        best_match rules ql
          = (rule_score ql (rules ! i), fst (snd (rules ! i)), snd (snd (rules ! i)))
        \<and> 0 < rule_score ql (rules ! i)
        \<and> (\<forall>j<i. rule_score ql (rules ! j) < rule_score ql (rules ! i))
        \<and> (\<forall>j<length rules. rule_score ql (rules ! j) \<le> rule_score ql (rules ! i)))"
  using foldl_best_step [of ql 0 default_answer default_sources rules]
  unfolding best_match_def by simp

lemma answer_respond:
  "answer (respond lower q)
     = fst (snd (best_match KEYWORD_RESPONSES (lower (query q)))) @ location_suffix (location q)"
  by (simp add: respond_def Let_def)

lemma sources_respond:
  "sources (respond lower q) = snd (snd (best_match KEYWORD_RESPONSES (lower (query q))))"
  by (simp add: respond_def Let_def)

lemma rule_answers_nonempty: "list_all (\<lambda>r. fst (snd r) \<noteq> []) KEYWORD_RESPONSES"
  by (simp add: KEYWORD_RESPONSES_def)

lemma default_answer_nonempty: "default_answer \<noteq> []"
  by (simp add: default_answer_def)

lemma best_answer_nonempty: "fst (snd (best_match KEYWORD_RESPONSES ql)) \<noteq> []"
proof -
  from best_match_cases [of KEYWORD_RESPONSES ql] show ?thesis
  proof (elim disjE conjE exE)
    assume "best_match KEYWORD_RESPONSES ql = (0, default_answer, default_sources)"
    then show ?thesis by (simp add: default_answer_nonempty)
  next
    fix i
    assume i: "i < length KEYWORD_RESPONSES"
      and b: "best_match KEYWORD_RESPONSES ql
                = (rule_score ql (KEYWORD_RESPONSES ! i), fst (snd (KEYWORD_RESPONSES ! i)),
                   snd (snd (KEYWORD_RESPONSES ! i)))"
    from i have "KEYWORD_RESPONSES ! i \<in> set KEYWORD_RESPONSES" by simp
    with rule_answers_nonempty have "fst (snd (KEYWORD_RESPONSES ! i)) \<noteq> []"
      by (simp add: list_all_iff)
    with b show ?thesis by simp
  qed
qed

text \<open>
  Claim C1. For every query (any text, any language tag, any location) \<open>respond\<close> returns a
  response whose answer is not empty and whose disclaimer is the fixed constant
  \<open>Verify recommendations with local agricultural experts before application.\<close> The function
  is total: no branch of the source raises.
\<close>

theorem respond_answer_disclaimer:
  "answer (respond lower q) \<noteq> []
   \<and> disclaimer (respond lower q)
       = ''Verify recommendations with local agricultural experts before application.''
   \<and> disclaimer (respond lower q) = AGRICULTURAL_DISCLAIMER"
  by (simp add: answer_respond best_answer_nonempty)
     (simp add: respond_def Let_def AGRICULTURAL_DISCLAIMER_def)

text \<open>
  Claim C3. When some rule scores above 0, \<open>respond\<close> returns the answer and the sources of
  the rule at an index \<open>i\<close> of the table whose score is strictly greater than the score of
  every earlier rule and at least the score of every later rule: the first rule with the
  highest score. A later rule with an equal score does not replace it. The answer carries
  the location sentence after the rule's text when the query has a location.
\<close>

theorem respond_first_best:
  assumes "\<exists>r\<in>set KEYWORD_RESPONSES. 0 < rule_score (lower (query q)) r"
  shows "\<exists>i<length KEYWORD_RESPONSES.
           (\<forall>j<i. rule_score (lower (query q)) (KEYWORD_RESPONSES ! j)
                    < rule_score (lower (query q)) (KEYWORD_RESPONSES ! i))
         \<and> (\<forall>j<length KEYWORD_RESPONSES.
                rule_score (lower (query q)) (KEYWORD_RESPONSES ! j)
                  \<le> rule_score (lower (query q)) (KEYWORD_RESPONSES ! i))
         \<and> answer (respond lower q)
             = fst (snd (KEYWORD_RESPONSES ! i)) @ location_suffix (location q)
         \<and> sources (respond lower q) = snd (snd (KEYWORD_RESPONSES ! i))"
proof -
  let ?ql = "lower (query q)"
  from assms obtain k where k: "k < length KEYWORD_RESPONSES"
    and pos: "0 < rule_score ?ql (KEYWORD_RESPONSES ! k)"
    by (auto simp add: in_set_conv_nth)
  from best_match_cases [of KEYWORD_RESPONSES ?ql] show ?thesis
  proof (elim disjE conjE exE)
    assume "\<forall>j<length KEYWORD_RESPONSES. rule_score ?ql (KEYWORD_RESPONSES ! j) = 0"
    with k pos show ?thesis by simp
  next
    fix i
    assume "i < length KEYWORD_RESPONSES"
      and "best_match KEYWORD_RESPONSES ?ql
             = (rule_score ?ql (KEYWORD_RESPONSES ! i), fst (snd (KEYWORD_RESPONSES ! i)),
                snd (snd (KEYWORD_RESPONSES ! i)))"
      and "\<forall>j<i. rule_score ?ql (KEYWORD_RESPONSES ! j) < rule_score ?ql (KEYWORD_RESPONSES ! i)"
      and "\<forall>j<length KEYWORD_RESPONSES.
             rule_score ?ql (KEYWORD_RESPONSES ! j) \<le> rule_score ?ql (KEYWORD_RESPONSES ! i)"
    then show ?thesis
      by (intro exI [of _ i]) (simp add: answer_respond sources_respond)
  qed
qed

text \<open>
  Claim C8. When the location of the query is not empty, the answer is the primary answer
  (the answer to the same query without location, which is the text selected by the rule
  loop, a rule's or the default) followed by the fixed sentence that quotes the location;
  so the answer contains the location verbatim, whichever rule matched.
\<close>

theorem location_appended:
  assumes "location q = Some l" and "l \<noteq> []"
  shows "answer (respond lower q)
           = answer (respond lower (q\<lparr>location := None\<rparr>))
             @ '' For location-specific advice in '' @ l
             @ '', contact your local Block Agriculture Officer or Krishi Vigyan Kendra.''
       \<and> answer (respond lower (q\<lparr>location := None\<rparr>))
           = fst (snd (best_match KEYWORD_RESPONSES (lower (query q))))
       \<and> sublist l (answer (respond lower q))"
proof -
  have 1: "answer (respond lower (q\<lparr>location := None\<rparr>))
             = fst (snd (best_match KEYWORD_RESPONSES (lower (query q))))"
    by (simp add: answer_respond location_suffix_def)
  have 2: "answer (respond lower q)
           = answer (respond lower (q\<lparr>location := None\<rparr>))
             @ '' For location-specific advice in '' @ l
             @ '', contact your local Block Agriculture Officer or Krishi Vigyan Kendra.''"
    using assms unfolding 1 by (simp add: answer_respond location_suffix_def)
  have 3: "sublist l (answer (respond lower q))"
    unfolding 2 sublist_def by (metis append.assoc)
  from 2 1 3 show ?thesis by (intro conjI)
qed

text \<open>
  Claim C9. When no rule scores above 0, the rule loop ends with the built-in default answer
  and the built-in default sources; \<open>respond\<close> returns the default sources and the default
  answer text (followed by the location sentence of C8 when the query has a location).
\<close>

theorem default_response:
  assumes "\<forall>r\<in>set KEYWORD_RESPONSES. \<not> 0 < rule_score (lower (query q)) r"
  shows "best_match KEYWORD_RESPONSES (lower (query q)) = (0, default_answer, default_sources)
       \<and> answer (respond lower q) = default_answer @ location_suffix (location q)
       \<and> sources (respond lower q) = default_sources"
proof -
  let ?ql = "lower (query q)"
  have z: "rule_score ?ql (KEYWORD_RESPONSES ! i) = 0" if "i < length KEYWORD_RESPONSES" for i
    using assms that by (metis nth_mem not_gr_zero)
  from best_match_cases [of KEYWORD_RESPONSES ?ql]
  have "best_match KEYWORD_RESPONSES ?ql = (0, default_answer, default_sources)"
    using z by (elim disjE conjE exE) simp_all
  then show ?thesis by (simp add: answer_respond sources_respond)
qed

text \<open>
  Witness for C3: the query \<open>Price of PEST control\<close> scores 1 on the first rule (\<open>price\<close>) and
  1 on the second (\<open>pest\<close>), 0 on the others; the response is the first rule's.
\<close>

theorem respond_first_best_witness:
  "rule_score (ascii_lower (query tie_query)) (KEYWORD_RESPONSES ! 0) = 1
   \<and> rule_score (ascii_lower (query tie_query)) (KEYWORD_RESPONSES ! 1) = 1
   \<and> answer (respond ascii_lower tie_query) = fst (snd (KEYWORD_RESPONSES ! 0))
   \<and> sources (respond ascii_lower tie_query) = [''Agmarknet (agmarknet.gov.in)'', ''eNAM (enam.gov.in)'']"
proof -
  let ?ql = "ascii_lower (query tie_query)"
  let ?scores = "[1, 1, 0, 0, 0, 0, 0, 0, 0] :: nat list"
  have sc: "map (rule_score ?ql) KEYWORD_RESPONSES = ?scores" by code_simp
  have len: "length KEYWORD_RESPONSES = 9" by (simp add: KEYWORD_RESPONSES_def)
  have nth: "rule_score ?ql (KEYWORD_RESPONSES ! j) = ?scores ! j" if "j < 9" for j
  proof -
    have "map (rule_score ?ql) KEYWORD_RESPONSES ! j = rule_score ?ql (KEYWORD_RESPONSES ! j)"
      using that len by (simp only: nth_map)
    then show ?thesis by (simp only: sc)
  qed
  have s0: "rule_score ?ql (KEYWORD_RESPONSES ! 0) = 1" using nth [of 0] by simp
  have s1: "rule_score ?ql (KEYWORD_RESPONSES ! 1) = 1" using nth [of 1] by simp
  have "KEYWORD_RESPONSES ! 0 \<in> set KEYWORD_RESPONSES" using len by (simp only: nth_mem)
  with s0 have h: "\<exists>r\<in>set KEYWORD_RESPONSES. 0 < rule_score ?ql r" by (metis zero_less_one)
  from respond_first_best [where lower = ascii_lower and q = tie_query, OF h] obtain i where i: "i < length KEYWORD_RESPONSES"
    and before: "\<forall>j<i. rule_score ?ql (KEYWORD_RESPONSES ! j) < rule_score ?ql (KEYWORD_RESPONSES ! i)"
    and a: "answer (respond ascii_lower tie_query)
              = fst (snd (KEYWORD_RESPONSES ! i)) @ location_suffix (location tie_query)"
    and s: "sources (respond ascii_lower tie_query) = snd (snd (KEYWORD_RESPONSES ! i))"
    by blast
  have "i = 0"
  proof (rule ccontr)
    assume "i \<noteq> 0"
    then have "rule_score ?ql (KEYWORD_RESPONSES ! 0) < rule_score ?ql (KEYWORD_RESPONSES ! i)"
      using before by simp
    then have "1 < ?scores ! i" using s0 nth [of i] i len by simp
    moreover have "?scores ! i \<in> set ?scores" using i len by (intro nth_mem) simp
    ultimately show False by auto
  qed
  have loc: "location_suffix (location tie_query) = []"
    by (simp add: tie_query_def location_suffix_def)
  have src: "snd (snd (KEYWORD_RESPONSES ! 0)) = [''Agmarknet (agmarknet.gov.in)'', ''eNAM (enam.gov.in)'']"
    by (simp add: KEYWORD_RESPONSES_def)
  from a s have "answer (respond ascii_lower tie_query) = fst (snd (KEYWORD_RESPONSES ! 0))"
    and "sources (respond ascii_lower tie_query) = [''Agmarknet (agmarknet.gov.in)'', ''eNAM (enam.gov.in)'']"
    unfolding \<open>i = 0\<close> loc src by simp_all
  with s0 s1 show ?thesis by (intro conjI)
qed

text \<open>
  Witness for C8: a query that matches no rule, from Pune.
\<close>

theorem location_appended_witness:
  "location plain_query = Some ''Pune'' \<and> ''Pune'' \<noteq> []
   \<and> answer (respond ascii_lower plain_query)
       = default_answer @ '' For location-specific advice in Pune, contact your local Block Agriculture Officer or Krishi Vigyan Kendra.''
   \<and> sublist ''Pune'' (answer (respond ascii_lower plain_query))"
proof -
  have l: "location plain_query = Some ''Pune''" by (simp add: plain_query_def)
  have n: "''Pune'' \<noteq> []" by simp
  have e: "fst (snd (best_match KEYWORD_RESPONSES (ascii_lower (query plain_query)))) = default_answer"
    by code_simp
  note th = location_appended [where lower = ascii_lower and q = plain_query, OF l n]
  from th e have 1: "answer (respond ascii_lower plain_query)
       = default_answer @ '' For location-specific advice in Pune, contact your local Block Agriculture Officer or Krishi Vigyan Kendra.''"
    by simp
  from th have 2: "sublist ''Pune'' (answer (respond ascii_lower plain_query))" by blast
  from l n 1 2 show ?thesis by (intro conjI)
qed

text \<open>
  Witness for C9: the empty query.
\<close>

theorem default_response_witness:
  "list_all (\<lambda>r. \<not> 0 < rule_score (ascii_lower (query empty_query)) r) KEYWORD_RESPONSES
   \<and> answer (respond ascii_lower empty_query) = default_answer
   \<and> sources (respond ascii_lower empty_query) = [''Kisan Call Centre (1800-180-1551)'', ''Kisan Suvidha App'']"
proof -
  have h: "list_all (\<lambda>r. \<not> 0 < rule_score (ascii_lower (query empty_query)) r) KEYWORD_RESPONSES"
    by code_simp
  then have h': "\<forall>r\<in>set KEYWORD_RESPONSES. \<not> 0 < rule_score (ascii_lower (query empty_query)) r"
    by (simp only: list_all_iff)
  have loc: "location_suffix (location empty_query) = []"
    by (simp add: empty_query_def location_suffix_def)
  note th = default_response [where lower = ascii_lower and q = empty_query, OF h']
  from th loc have 1: "answer (respond ascii_lower empty_query) = default_answer" by simp
  from th have 2: "sources (respond ascii_lower empty_query)
      = [''Kisan Call Centre (1800-180-1551)'', ''Kisan Suvidha App'']"
    by (simp add: default_sources_def)
  from h 1 2 show ?thesis by (intro conjI)
qed

end
